theory Spec2Isabelle
  imports Complex_Main "HOL-Library.AList"
begin

section \<open>JavaScript values and plain objects\<close>

text \<open>
  The dashboard is TypeScript running as JavaScript. Three facts of the language decide
  what the code below computes, so they are part of the model.

  \<^item> A value read from an object may be something other than a string: an object literal
    inherits the properties of \<^verbatim>\<open>Object.prototype\<close>. \<open>JBuiltin k\<close> stands for the
    built-in function or object found under the inherited name \<open>k\<close>.
  \<^item> A plain object keeps its own properties in creation order; it is an association
    list here. Reading \<^verbatim>\<open>obj[k]\<close> finds an own property first and an inherited one
    otherwise.
  \<^item> A number is an IEEE 754 double. The numbers of a trade are finite doubles and are
    modelled as the reals they denote. Comparisons are exact on them. The division and the
    multiplication of the target achievement round their result to a double, as
    \<open>round_double\<close> does; the sums and averages of the two reducers are taken in exact
    real arithmetic.
\<close>

datatype js_value = JString string | JBuiltin string

definition object_prototype_keys :: "string list" where
  "object_prototype_keys =
    [''constructor'', ''hasOwnProperty'', ''isPrototypeOf'', ''propertyIsEnumerable'',
     ''toLocaleString'', ''toString'', ''valueOf'', ''__proto__'',
     ''__defineGetter__'', ''__defineSetter__'', ''__lookupGetter__'', ''__lookupSetter__'']"

datatype 'a property = Own 'a | Inherited | Missing

text \<open>\<^verbatim>\<open>obj[k]\<close> on an object literal whose own properties are \<open>obj\<close>.\<close>

definition get_property :: "(string \<times> 'a) list \<Rightarrow> string \<Rightarrow> 'a property" where
  "get_property obj k =
    (case map_of obj k of
       Some v \<Rightarrow> Own v
     | None \<Rightarrow> if k \<in> set object_prototype_keys then Inherited else Missing)"

text \<open>\<^verbatim>\<open>obj[k] = v\<close>: an existing own property keeps its place, a new one goes last.\<close>

definition set_property :: "string \<Rightarrow> 'a \<Rightarrow> (string \<times> 'a) list \<Rightarrow> (string \<times> 'a) list" where
  "set_property k v obj = AList.update k v obj"

text \<open>
  \<^verbatim>\<open>Object.entries(obj)\<close> lists the own properties: first the keys that are array
  indices (canonical decimal numerals below \<open>2^32 - 1\<close>) in ascending numeric order, then
  all other keys in creation order.
\<close>

definition is_digit :: "char \<Rightarrow> bool" where
  "is_digit c = (48 \<le> (of_char c :: nat) \<and> (of_char c :: nat) \<le> 57)"

definition digits_value :: "string \<Rightarrow> nat" where
  "digits_value s = foldl (\<lambda>n c. 10 * n + ((of_char c :: nat) - 48)) 0 s"

definition is_array_index :: "string \<Rightarrow> bool" where
  "is_array_index s =
    (s \<noteq> [] \<and> list_all is_digit s \<and> (s = ''0'' \<or> hd s \<noteq> CHR ''0'') \<and>
     digits_value s < 2 ^ 32 - 1)"

definition Object_entries :: "(string \<times> 'a) list \<Rightarrow> (string \<times> 'a) list" where
  "Object_entries obj =
    sort_key (\<lambda>e. digits_value (fst e)) (filter (\<lambda>e. is_array_index (fst e)) obj) @
    filter (\<lambda>e. \<not> is_array_index (fst e)) obj"

text \<open>
  \<^verbatim>\<open>xs.sort(cmp)\<close>: the sort is stable, and \<open>a\<close> stays before \<open>b\<close> unless
  \<open>cmp a b\<close> is positive. Insertion from the right end gives exactly that order.
\<close>

fun insert_by :: "('a \<Rightarrow> 'a \<Rightarrow> real) \<Rightarrow> 'a \<Rightarrow> 'a list \<Rightarrow> 'a list" where
  "insert_by cmp x [] = [x]"
| "insert_by cmp x (y # ys) =
    (if cmp x y \<le> 0 then x # y # ys else y # insert_by cmp x ys)"

definition js_sort :: "('a \<Rightarrow> 'a \<Rightarrow> real) \<Rightarrow> 'a list \<Rightarrow> 'a list" where
  "js_sort cmp xs = foldr (insert_by cmp) xs []"

subsection \<open>Doubles\<close>

text \<open>
  The result of an arithmetic operation: a finite double, an infinity, or NaN. Negative
  zero is identified with zero; the expression modelled here never divides by a zero and
  \<^verbatim>\<open>toFixed\<close> prints both zeros alike.
\<close>

datatype js_number = Finite real | PosInfinity | NegInfinity | NaN

definition pow2 :: "int \<Rightarrow> real" where
  "pow2 e = (if 0 \<le> e then 2 ^ nat e else 1 / 2 ^ nat (- e))"

text \<open>
  The exponent of the binade of \<open>a > 0\<close>: the \<open>e\<close> with \<open>2^e \<le> a < 2^(e+1)\<close>, and
  \<open>-1022\<close> below the normal range, where the subnormal doubles have the spacing of the
  lowest binade.
\<close>

function binade_up :: "real \<Rightarrow> int" where
  "binade_up a = (if a < 2 then 0 else binade_up (a / 2) + 1)"
  by pat_completeness auto
termination
proof (relation "measure (\<lambda>a. nat \<lfloor>a\<rfloor>)")
  show "wf (measure (\<lambda>a::real. nat \<lfloor>a\<rfloor>))" by simp
next
  fix a :: real
  assume "\<not> a < 2"
  then have "\<lfloor>a / 2\<rfloor> < \<lfloor>a\<rfloor>" "0 < \<lfloor>a\<rfloor>" by linarith+
  then show "(a / 2, a) \<in> measure (\<lambda>a. nat \<lfloor>a\<rfloor>)" by simp
qed

function binade_down :: "nat \<Rightarrow> real \<Rightarrow> int" where
  "binade_down k a = (if 1 \<le> a \<or> 1022 \<le> k then - int k else binade_down (Suc k) (2 * a))"
  by pat_completeness auto
termination
  by (relation "measure (\<lambda>(k, a). 1022 - k)") auto

declare binade_up.simps [simp del] binade_down.simps [simp del]

definition binade :: "real \<Rightarrow> int" where
  "binade a = (if 1 \<le> a then binade_up a else binade_down 0 a)"

text \<open>The nearest integer, the even one of two.\<close>

definition round_half_even :: "real \<Rightarrow> int" where
  "round_half_even y =
    (let f = \<lfloor>y\<rfloor>
     in if y - of_int f < 1 / 2 then f
        else if 1 / 2 < y - of_int f then f + 1
        else if even f then f else f + 1)"

text \<open>
  The double of a real result, in the rounding mode of JavaScript (to nearest, ties to
  even): the nearest multiple of the spacing \<open>2^(e - 52)\<close> of the binade, and an infinity
  when that is \<open>2^1024\<close> or more.
\<close>

definition round_double :: "real \<Rightarrow> js_number" where
  "round_double x =
    (if x = 0 then Finite 0
     else let a = \<bar>x\<bar>;
              ulp = pow2 (binade a - 52);
              r = of_int (round_half_even (a / ulp)) * ulp
          in if pow2 1024 \<le> r then (if x < 0 then NegInfinity else PosInfinity)
             else Finite (if x < 0 then - r else r))"

text \<open>\<^verbatim>\<open>a / b\<close> and \<^verbatim>\<open>v * b\<close> for finite doubles \<open>a\<close> and \<open>b\<close>.\<close>

definition js_div :: "real \<Rightarrow> real \<Rightarrow> js_number" where
  "js_div a b =
    (if b = 0 then (if a = 0 then NaN else if 0 < a then PosInfinity else NegInfinity)
     else round_double (a / b))"

fun js_mul :: "js_number \<Rightarrow> real \<Rightarrow> js_number" where
  "js_mul (Finite a) b = round_double (a * b)"
| "js_mul PosInfinity b = (if b = 0 then NaN else if 0 < b then PosInfinity else NegInfinity)"
| "js_mul NegInfinity b = (if b = 0 then NaN else if 0 < b then NegInfinity else PosInfinity)"
| "js_mul NaN b = NaN"

subsection \<open>Printing a number\<close>

fun decimal :: "nat \<Rightarrow> string" where
  "decimal n =
    (if n < 10 then [''0123456789'' ! n]
     else decimal (n div 10) @ [''0123456789'' ! (n mod 10)])"

declare decimal.simps [simp del]

text \<open>
  \<^verbatim>\<open>String(x)\<close> for a double \<open>x \<ge> 10^21\<close>, after Number::toString of ECMAScript: with
  the least number \<open>k\<close> of digits, integers \<open>s\<close> of \<open>k\<close> digits and \<open>n\<close> such that
  \<open>s * 10^(n - k)\<close> rounds to \<open>x\<close>; of two such \<open>s\<close> the one nearer to \<open>x\<close>, the even
  one when they are equally near. The result is the first digit of \<open>s\<close>, a point and the
  other digits when there are any, and the exponent \<open>n - 1\<close>.

  Such an \<open>x\<close> is an integer; let it have \<open>D\<close> digits. A decimal that rounds to \<open>x\<close> has
  \<open>n = D\<close>, or is \<open>10^D\<close> itself (\<open>s = 1\<close>, \<open>k = 1\<close>, \<open>n = D + 1\<close>), and for a given \<open>k\<close>
  only the two multiples of \<open>10^(D - k)\<close> around \<open>x\<close> can be the nearest one. Seventeen
  digits always suffice for a double.
\<close>

definition round_trips :: "real \<Rightarrow> nat \<Rightarrow> nat \<Rightarrow> bool" where
  "round_trips x s p = (round_double (real s * 10 ^ p) = Finite x)"

definition closer :: "real \<Rightarrow> nat \<Rightarrow> nat \<Rightarrow> nat" where
  "closer x p lo =
    (let below = x - real lo * 10 ^ p; above = real (lo + 1) * 10 ^ p - x
     in if below < above then lo else if above < below then lo + 1
        else if even lo then lo else lo + 1)"

definition candidates :: "real \<Rightarrow> nat \<Rightarrow> nat \<Rightarrow> nat list" where
  "candidates x p k =
    filter (\<lambda>s. 10 ^ (k - 1) \<le> s \<and> s < 10 ^ k \<and> round_trips x s p)
      [nat \<lfloor>x / 10 ^ p\<rfloor>, nat \<lfloor>x / 10 ^ p\<rfloor> + 1]"

function shortest :: "real \<Rightarrow> nat \<Rightarrow> nat \<Rightarrow> nat \<times> nat" where
  "shortest x D k =
    (if 17 \<le> k then (closer x (D - k) (nat \<lfloor>x / 10 ^ (D - k)\<rfloor>), k)
     else case candidates x (D - k) k of
            [] \<Rightarrow> shortest x D (Suc k)
          | [s] \<Rightarrow> (s, k)
          | _ \<Rightarrow> (closer x (D - k) (nat \<lfloor>x / 10 ^ (D - k)\<rfloor>), k))"
  by pat_completeness auto
termination
  by (relation "measure (\<lambda>(x, D, k). 17 - k)") auto

declare shortest.simps [simp del]

definition exponential :: "real \<Rightarrow> string" where
  "exponential x =
    (let D = length (decimal (nat \<lfloor>x\<rfloor>));
         (s, k, n) = (if round_trips x 1 D then (1, 1, D + 1)
                      else (fst (shortest x D 1), snd (shortest x D 1), D));
         ds = decimal s
     in (if k = 1 then ds else hd ds # ''.'' @ tl ds) @ ''e+'' @ decimal (n - 1))"

text \<open>
  \<^verbatim>\<open>v.toFixed(0)\<close> after ECMAScript: a value that is not finite prints as its name; a
  negative \<open>x\<close> gives a minus sign and is negated; from \<open>10^21\<close> on the result is
  \<^verbatim>\<open>String(x)\<close>; otherwise the digits of the integer nearest to \<open>x\<close>, the larger one
  of two.
\<close>

definition toFixed0 :: "js_number \<Rightarrow> string" where
  "toFixed0 v =
    (case v of
       NaN \<Rightarrow> ''NaN''
     | PosInfinity \<Rightarrow> ''Infinity''
     | NegInfinity \<Rightarrow> ''-Infinity''
     | Finite x \<Rightarrow>
         (let s = (if x < 0 then ''-'' else []);
              y = (if x < 0 then - x else x)
          in if 10 ^ 21 \<le> y then s @ exponential y
             else s @ decimal (nat \<lfloor>y + 1 / 2\<rfloor>)))"


section \<open>The language provider (language-provider.tsx)\<close>

datatype Language = Ko | En

fun Language_string :: "Language \<Rightarrow> string" where
  "Language_string Ko = ''ko''"
| "Language_string En = ''en''"

text \<open>
  The dictionary \<^verbatim>\<open>translations\<close>. A value with characters beyond ASCII is the list of its
  UTF-8 bytes.
\<close>

fun translations_dict :: "Language \<Rightarrow> (string \<times> string) list" where
  "translations_dict Ko = [
   (''header.season'', ''Season 2''),
   (''header.openSource'', ''Open Source''),
   (''header.tooltip.openSource'', ''AI '' @ [CHR 0xEA, CHR 0xB8, CHR 0xB0, CHR 0xEB, CHR 0xB0, CHR 0x98] @ '' '' @ [CHR 0xEC, CHR 0xA3, CHR 0xBC, CHR 0xEC, CHR 0x8B, CHR 0x9D] @ '' '' @ [CHR 0xEB, CHR 0xB6, CHR 0x84, CHR 0xEC, CHR 0x84, CHR 0x9D] @ '' '' @ [CHR 0xEB, CHR 0xB0, CHR 0x8F] @ '' '' @ [CHR 0xEB, CHR 0xA7, CHR 0xA4, CHR 0xEB, CHR 0xA7, CHR 0xA4] @ '' '' @ [CHR 0xEC, CHR 0x8B, CHR 0x9C, CHR 0xEC, CHR 0x8A, CHR 0xA4, CHR 0xED, CHR 0x85, CHR 0x9C] @ '' '' @ [CHR 0xE2, CHR 0x80, CHR 0xA2] @ '' MIT License''),
   (''header.startDate'', [CHR 0xEC, CHR 0x8B, CHR 0x9C, CHR 0xEC, CHR 0x9E, CHR 0x91] @ '': 2025.09.29''),
   (''header.updated'', [CHR 0xEC, CHR 0x97, CHR 0x85, CHR 0xEB, CHR 0x8D, CHR 0xB0, CHR 0xEC, CHR 0x9D, CHR 0xB4, CHR 0xED, CHR 0x8A, CHR 0xB8]),
   (''header.realtimeUpdate'', [CHR 0xEC, CHR 0x8B, CHR 0xA4, CHR 0xEC, CHR 0x8B, CHR 0x9C, CHR 0xEA, CHR 0xB0, CHR 0x84] @ '' '' @ [CHR 0xEC, CHR 0x97, CHR 0x85, CHR 0xEB, CHR 0x8D, CHR 0xB0, CHR 0xEC, CHR 0x9D, CHR 0xB4, CHR 0xED, CHR 0x8A, CHR 0xB8]),
   (''header.dashboard'', [CHR 0xEB, CHR 0x8C, CHR 0x80, CHR 0xEC, CHR 0x8B, CHR 0x9C, CHR 0xEB, CHR 0xB3, CHR 0xB4, CHR 0xEB, CHR 0x93, CHR 0x9C]),
   (''header.aiDecisions'', ''AI '' @ [CHR 0xEB, CHR 0xB3, CHR 0xB4, CHR 0xEC, CHR 0x9C, CHR 0xA0] @ '' '' @ [CHR 0xEB, CHR 0xB6, CHR 0x84, CHR 0xEC, CHR 0x84, CHR 0x9D]),
   (''header.trading'', [CHR 0xEA, CHR 0xB1, CHR 0xB0, CHR 0xEB, CHR 0x9E, CHR 0x98] @ '' '' @ [CHR 0xEB, CHR 0x82, CHR 0xB4, CHR 0xEC, CHR 0x97, CHR 0xAD]),
   (''header.watchlist'', [CHR 0xEA, CHR 0xB4, CHR 0x80, CHR 0xEC, CHR 0x8B, CHR 0xAC] @ '' '' @ [CHR 0xEC, CHR 0xA2, CHR 0x85, CHR 0xEB, CHR 0xAA, CHR 0xA9]),
   (''header.tooltip.github'', ''GitHub '' @ [CHR 0xEC, CHR 0xA0, CHR 0x80, CHR 0xEC, CHR 0x9E, CHR 0xA5, CHR 0xEC, CHR 0x86, CHR 0x8C]),
   (''header.tooltip.telegram'', [CHR 0xED, CHR 0x85, CHR 0x94, CHR 0xEB, CHR 0xA0, CHR 0x88, CHR 0xEA, CHR 0xB7, CHR 0xB8, CHR 0xEB, CHR 0x9E, CHR 0xA8] @ '' '' @ [CHR 0xEC, CHR 0xB1, CHR 0x84, CHR 0xEB, CHR 0x84, CHR 0x90]),
   (''header.tooltip.theme'', [CHR 0xED, CHR 0x85, CHR 0x8C, CHR 0xEB, CHR 0xA7, CHR 0x88] @ '' '' @ [CHR 0xEC, CHR 0xA0, CHR 0x84, CHR 0xED, CHR 0x99, CHR 0x98]),
   (''loading.text'', [CHR 0xEB, CHR 0x8D, CHR 0xB0, CHR 0xEC, CHR 0x9D, CHR 0xB4, CHR 0xED, CHR 0x84, CHR 0xB0] @ '' '' @ [CHR 0xEB, CHR 0xA1, CHR 0x9C, CHR 0xEB, CHR 0x94, CHR 0xA9] @ '' '' @ [CHR 0xEC, CHR 0xA4, CHR 0x91] @ ''...''),
   (''table.realPortfolio'', [CHR 0xEC, CHR 0x8B, CHR 0xA4, CHR 0xEC, CHR 0xA0, CHR 0x84, CHR 0xED, CHR 0x88, CHR 0xAC, CHR 0xEC, CHR 0x9E, CHR 0x90] @ '' '' @ [CHR 0xED, CHR 0x8F, CHR 0xAC, CHR 0xED, CHR 0x8A, CHR 0xB8, CHR 0xED, CHR 0x8F, CHR 0xB4, CHR 0xEB, CHR 0xA6, CHR 0xAC, CHR 0xEC, CHR 0x98, CHR 0xA4]),
   (''table.simulator'', [CHR 0xED, CHR 0x94, CHR 0x84, CHR 0xEB, CHR 0xA6, CHR 0xAC, CHR 0xEC, CHR 0xA6, CHR 0x98] @ '' '' @ [CHR 0xEC, CHR 0x8B, CHR 0x9C, CHR 0xEB, CHR 0xAE, CHR 0xAC, CHR 0xEB, CHR 0xA0, CHR 0x88, CHR 0xEC, CHR 0x9D, CHR 0xB4, CHR 0xED, CHR 0x84, CHR 0xB0]),
   (''table.stock'', [CHR 0xEC, CHR 0xA2, CHR 0x85, CHR 0xEB, CHR 0xAA, CHR 0xA9]),
   (''table.quantity'', [CHR 0xEC, CHR 0x88, CHR 0x98, CHR 0xEB, CHR 0x9F, CHR 0x89]),
   (''table.avgPrice'', [CHR 0xED, CHR 0x8F, CHR 0x89, CHR 0xEA, CHR 0xB7, CHR 0xA0, CHR 0xEB, CHR 0x8B, CHR 0xA8, CHR 0xEA, CHR 0xB0, CHR 0x80]),
   (''table.currentPrice'', [CHR 0xED, CHR 0x98, CHR 0x84, CHR 0xEC, CHR 0x9E, CHR 0xAC, CHR 0xEA, CHR 0xB0, CHR 0x80]),
   (''table.profitRate'', [CHR 0xEC, CHR 0x88, CHR 0x98, CHR 0xEC, CHR 0x9D, CHR 0xB5, CHR 0xEB, CHR 0xA5, CHR 0xA0]),
   (''table.profitAmount'', [CHR 0xED, CHR 0x8F, CHR 0x89, CHR 0xEA, CHR 0xB0, CHR 0x80, CHR 0xEC, CHR 0x86, CHR 0x90, CHR 0xEC, CHR 0x9D, CHR 0xB5]),
   (''table.totalValue'', [CHR 0xED, CHR 0x8F, CHR 0x89, CHR 0xEA, CHR 0xB0, CHR 0x80, CHR 0xEA, CHR 0xB8, CHR 0x88, CHR 0xEC, CHR 0x95, CHR 0xA1]),
   (''metrics.totalReturn'', [CHR 0xEB, CHR 0x88, CHR 0x84, CHR 0xEC, CHR 0xA0, CHR 0x81] @ '' '' @ [CHR 0xEC, CHR 0x88, CHR 0x98, CHR 0xEC, CHR 0x9D, CHR 0xB5, CHR 0xEB, CHR 0xA5, CHR 0xA0]),
   (''metrics.winRate'', [CHR 0xEC, CHR 0x8A, CHR 0xB9, CHR 0xEB, CHR 0xA5, CHR 0xA0]),
   (''metrics.avgReturn'', [CHR 0xED, CHR 0x8F, CHR 0x89, CHR 0xEA, CHR 0xB7, CHR 0xA0] @ '' '' @ [CHR 0xEC, CHR 0x88, CHR 0x98, CHR 0xEC, CHR 0x9D, CHR 0xB5, CHR 0xEB, CHR 0xA5, CHR 0xA0]),
   (''metrics.avgHoldingDays'', [CHR 0xED, CHR 0x8F, CHR 0x89, CHR 0xEA, CHR 0xB7, CHR 0xA0] @ '' '' @ [CHR 0xEB, CHR 0xB3, CHR 0xB4, CHR 0xEC, CHR 0x9C, CHR 0xA0, CHR 0xEC, CHR 0x9D, CHR 0xBC]),
   (''metrics.totalTrades'', [CHR 0xEC, CHR 0xB4, CHR 0x9D] @ '' '' @ [CHR 0xEA, CHR 0xB1, CHR 0xB0, CHR 0xEB, CHR 0x9E, CHR 0x98]),
   (''metrics.wins'', [CHR 0xEC, CHR 0x8A, CHR 0xB9]),
   (''metrics.losses'', [CHR 0xED, CHR 0x8C, CHR 0xA8]),
   (''common.won'', [CHR 0xEC, CHR 0x9B, CHR 0x90]),
   (''common.krw'', [CHR 0xE2, CHR 0x82, CHR 0xA9]),
   (''common.percent'', ''%''),
   (''common.days'', [CHR 0xEC, CHR 0x9D, CHR 0xBC]),
   (''common.trades'', [CHR 0xEA, CHR 0xB1, CHR 0xB4])]"
| "translations_dict En = [
   (''header.season'', ''Season 2''),
   (''header.openSource'', ''Open Source''),
   (''header.tooltip.openSource'', ''AI-powered Stock Analysis & Trading System '' @ [CHR 0xE2, CHR 0x80, CHR 0xA2] @ '' MIT License''),
   (''header.startDate'', ''Start: 2025.09.29''),
   (''header.updated'', ''Updated''),
   (''header.realtimeUpdate'', ''Real-time Update''),
   (''header.dashboard'', ''Dashboard''),
   (''header.aiDecisions'', ''AI Holdings''),
   (''header.trading'', ''Trades''),
   (''header.watchlist'', ''Watchlist''),
   (''header.tooltip.github'', ''GitHub Repository''),
   (''header.tooltip.telegram'', ''Telegram Channel''),
   (''header.tooltip.theme'', ''Toggle Theme''),
   (''loading.text'', ''Loading data...''),
   (''table.realPortfolio'', ''Real Trading Portfolio''),
   (''table.simulator'', ''Prism Simulator''),
   (''table.stock'', ''Stock''),
   (''table.quantity'', ''Qty''),
   (''table.avgPrice'', ''Avg Price''),
   (''table.currentPrice'', ''Current''),
   (''table.profitRate'', ''Return''),
   (''table.profitAmount'', ''P&L''),
   (''table.totalValue'', ''Value''),
   (''metrics.totalReturn'', ''Total Return''),
   (''metrics.winRate'', ''Win Rate''),
   (''metrics.avgReturn'', ''Avg Return''),
   (''metrics.avgHoldingDays'', ''Avg Days''),
   (''metrics.totalTrades'', ''Total Trades''),
   (''metrics.wins'', ''Wins''),
   (''metrics.losses'', ''Losses''),
   (''common.won'', ''KRW''),
   (''common.krw'', [CHR 0xE2, CHR 0x82, CHR 0xA9]),
   (''common.percent'', ''%''),
   (''common.days'', ''d''),
   (''common.trades'', ''trades'')]"

text \<open>
  The provider's state: the \<^verbatim>\<open>useState\<close> cell and the browser's
  \<^verbatim>\<open>localStorage\<close>.
\<close>

record provider_state =
  language :: Language
  localStorage :: "string \<Rightarrow> string option"

text \<open>A provider instance starts with \<^verbatim>\<open>useState<Language>("ko")\<close>.\<close>

definition LanguageProvider_initial :: "(string \<Rightarrow> string option) \<Rightarrow> provider_state" where
  "LanguageProvider_initial storage = \<lparr>language = Ko, localStorage = storage\<rparr>"

text \<open>The effect that runs once on mount.\<close>

definition LanguageProvider_mount :: "provider_state \<Rightarrow> provider_state" where
  "LanguageProvider_mount s =
    (case localStorage s ''language'' of
       None \<Rightarrow> s
     | Some stored \<Rightarrow>
         if stored = ''ko'' then s\<lparr>language := Ko\<rparr>
         else if stored = ''en'' then s\<lparr>language := En\<rparr>
         else s)"

definition setLanguage :: "Language \<Rightarrow> provider_state \<Rightarrow> provider_state" where
  "setLanguage lang s =
    s\<lparr>language := lang,
      localStorage := (localStorage s)(''language'' \<mapsto> Language_string lang)\<rparr>"

text \<open>\<^verbatim>\<open>translations[language][key] || key\<close>: the empty string is falsy.\<close>

definition t :: "Language \<Rightarrow> string \<Rightarrow> js_value" where
  "t lang key =
    (case get_property (translations_dict lang) key of
       Own s \<Rightarrow> if s = [] then JString key else JString s
     | Inherited \<Rightarrow> JBuiltin key
     | Missing \<Rightarrow> JString key)"

text \<open>
  The context. Its default value is \<^verbatim>\<open>undefined\<close>; a provider supplies
  \<^verbatim>\<open>{ language, setLanguage, t }\<close>, which its language determines (\<open>t\<close> is
  \<open>t language\<close>). The enclosing providers of a component are a list, innermost first.
\<close>

type_synonym LanguageContextType = Language

datatype error = Error string

definition useContext :: "LanguageContextType list \<Rightarrow> LanguageContextType option" where
  "useContext providers = (case providers of [] \<Rightarrow> None | v # _ \<Rightarrow> Some v)"

definition useLanguage :: "LanguageContextType list \<Rightarrow> error + LanguageContextType" where
  "useLanguage providers =
    (case useContext providers of
       None \<Rightarrow> Inl (Error ''useLanguage must be used within a LanguageProvider'')
     | Some context \<Rightarrow> Inr context)"

section \<open>The trading history page (TradingHistoryPage)\<close>

text \<open>
  Modelled from the spec: the types \<^verbatim>\<open>Trade\<close> and \<^verbatim>\<open>Summary\<close> of
  \<^verbatim>\<open>@/types/dashboard\<close> are not among the sources. The records below have the fields
  the spec's data model lists and the page reads; an optional field that is absent
  (\<^verbatim>\<open>undefined\<close>) is \<open>None\<close>. The free-text fields of a scenario, which the page
  only copies into the layout, are left out.
\<close>

record Scenario =
  sector :: "string option"
  investment_period :: "string option"
  target_price :: "real option"

record Trade =
  trade_id :: nat
  ticker :: string
  company_name :: string
  buy_price :: real
  sell_price :: real
  buy_date :: string
  sell_date :: string
  holding_days :: real
  profit_rate :: real
  scenario :: "Scenario option"

record SummaryTrading =
  total_trades :: "real option"
  win_rate :: "real option"
  avg_profit_rate :: "real option"
  avg_holding_days :: "real option"

subsection \<open>Best and worst trade\<close>

text \<open>
  \<^verbatim>\<open>history[0] || { profit_rate: 0 }\<close> is the first trade, or an object that has a
  profit rate and nothing else.
\<close>

datatype trade_or_placeholder = A_Trade Trade | Placeholder real

fun profit_rate_of :: "trade_or_placeholder \<Rightarrow> real" where
  "profit_rate_of (A_Trade trade) = profit_rate trade"
| "profit_rate_of (Placeholder r) = r"

definition first_or_placeholder :: "Trade list \<Rightarrow> trade_or_placeholder" where
  "first_or_placeholder history =
    (case history of [] \<Rightarrow> Placeholder 0 | trade # _ \<Rightarrow> A_Trade trade)"

definition bestTrade :: "Trade list \<Rightarrow> trade_or_placeholder" where
  "bestTrade history =
    foldl (\<lambda>best trade. if profit_rate trade > profit_rate_of best then A_Trade trade else best)
      (first_or_placeholder history) history"

definition worstTrade :: "Trade list \<Rightarrow> trade_or_placeholder" where
  "worstTrade history =
    foldl (\<lambda>worst trade. if profit_rate trade < profit_rate_of worst then A_Trade trade else worst)
      (first_or_placeholder history) history"

subsection \<open>Averages by sector and by investment period\<close>

record group_stats =
  total :: real
  count :: nat
  avgProfit :: real

text \<open>
  The label a value of \<open>t\<close> gives as a property key. \<open>t\<close> returns a string for both keys
  the page asks for; the name of a built-in stands for its text otherwise.
\<close>

fun property_key :: "js_value \<Rightarrow> string" where
  "property_key (JString s) = s"
| "property_key (JBuiltin k) = k"

text \<open>\<^verbatim>\<open>label || fallback\<close> for an optional string: absent and empty are falsy.\<close>

definition or_else :: "string option \<Rightarrow> string \<Rightarrow> string" where
  "or_else label fallback =
    (case label of None \<Rightarrow> fallback | Some s \<Rightarrow> if s = [] then fallback else s)"

text \<open>\<^verbatim>\<open>trade.scenario?.sector || t("common.other")\<close>\<close>

definition sector_label :: "Language \<Rightarrow> Trade \<Rightarrow> string" where
  "sector_label lang trade =
    or_else (case scenario trade of None \<Rightarrow> None | Some sc \<Rightarrow> sector sc)
      (property_key (t lang ''common.other''))"

text \<open>\<^verbatim>\<open>trade.scenario?.investment_period || t("common.unclassified")\<close>\<close>

definition period_label :: "Language \<Rightarrow> Trade \<Rightarrow> string" where
  "period_label lang trade =
    or_else (case scenario trade of None \<Rightarrow> None | Some sc \<Rightarrow> investment_period sc)
      (property_key (t lang ''common.unclassified''))"

text \<open>
  The body the two reducers share, for the label \<open>k\<close> and the profit rate \<open>p\<close> of a
  trade. \<^verbatim>\<open>!acc[k]\<close> holds only when nothing is found under \<open>k\<close>: a group object and
  an inherited built-in are both truthy. When \<open>k\<close> names an inherited built-in, the three
  assignments write to that built-in and \<open>acc\<close> gets no property. After the first
  statement something is always found under \<open>k\<close> (lemma \<open>found_after_init\<close>), so
  \<^verbatim>\<open>acc[k].total\<close> never reads a property of \<^verbatim>\<open>undefined\<close>.
\<close>

definition add_to_group :: "string \<Rightarrow> real \<Rightarrow> (string \<times> group_stats) list \<Rightarrow> (string \<times> group_stats) list" where
  "add_to_group k p acc =
    (let acc1 = (case get_property acc k of
                   Missing \<Rightarrow> set_property k \<lparr>total = 0, count = 0, avgProfit = 0\<rparr> acc
                 | _ \<Rightarrow> acc)
     in case get_property acc1 k of
          Own g \<Rightarrow>
            (let g1 = g\<lparr>total := total g + p\<rparr>;
                 g2 = g1\<lparr>count := count g1 + 1\<rparr>;
                 g3 = g2\<lparr>avgProfit := total g2 / real (count g2)\<rparr>
             in set_property k g3 acc1)
        | _ \<Rightarrow> acc1)"

definition sectorPerformance :: "Language \<Rightarrow> Trade list \<Rightarrow> (string \<times> group_stats) list" where
  "sectorPerformance lang history =
    foldl (\<lambda>acc trade. add_to_group (sector_label lang trade) (profit_rate trade) acc) [] history"

definition sortedSectors :: "Language \<Rightarrow> Trade list \<Rightarrow> (string \<times> group_stats) list" where
  "sortedSectors lang history =
    take 3 (js_sort (\<lambda>a b. avgProfit (snd b) - avgProfit (snd a))
      (Object_entries (sectorPerformance lang history)))"

definition periodPerformance :: "Language \<Rightarrow> Trade list \<Rightarrow> (string \<times> group_stats) list" where
  "periodPerformance lang history =
    foldl (\<lambda>acc trade. add_to_group (period_label lang trade) (profit_rate trade) acc) [] history"

subsection \<open>Target achievement of a trade\<close>

text \<open>
  The cell is \<^verbatim>\<open>"-"\<close> unless \<^verbatim>\<open>trade.scenario?.target_price\<close> is truthy, that is
  present and not zero. Otherwise it is
  \<^verbatim>\<open>((trade.sell_price / trade.scenario.target_price) * 100).toFixed(0)\<close> followed by
  \<^verbatim>\<open>%\<close>, the quotient and the product each rounded to a double. The second component
  lists the divisors of the divisions the expression evaluates.
\<close>

definition target_achievement :: "Trade \<Rightarrow> string \<times> real list" where
  "target_achievement trade =
    (case (case scenario trade of None \<Rightarrow> None | Some sc \<Rightarrow> target_price sc) of
       None \<Rightarrow> (''-'', [])
     | Some target \<Rightarrow>
         if target = 0 then (''-'', [])
         else (toFixed0 (js_mul (js_div (sell_price trade) target) 100) @ ''%'', [target]))"

subsection \<open>The rendered page\<close>

text \<open>
  The children of the page's root element, in order, each with the data it shows.
  \<^verbatim>\<open>{c && <X/>}\<close> contributes \<open>X\<close> when \<open>c\<close> holds and nothing otherwise;
  \<^verbatim>\<open>x || 0\<close> is \<open>0\<close> for an absent number.
\<close>

datatype page_section =
    PageHeader real
  | StatCards real real real real
  | BestWorstCards trade_or_placeholder trade_or_placeholder
  | PerformanceCards "(string \<times> group_stats) list option" "(string \<times> group_stats) list option"
  | TradeListCard "(Trade \<times> string) list"
  | EmptyState string

definition or_zero :: "real option \<Rightarrow> real" where
  "or_zero x = (case x of None \<Rightarrow> 0 | Some v \<Rightarrow> v)"

definition empty_state_message :: string where
  "empty_state_message =
    [CHR 0xEC, CHR 0x95, CHR 0x84, CHR 0xEC, CHR 0xA7, CHR 0x81] @ '' '' @
    [CHR 0xEA, CHR 0xB1, CHR 0xB0, CHR 0xEB, CHR 0x9E, CHR 0x98] @ '' '' @
    [CHR 0xEB, CHR 0x82, CHR 0xB4, CHR 0xEC, CHR 0x97, CHR 0xAD, CHR 0xEC, CHR 0x9D, CHR 0xB4] @ '' '' @
    [CHR 0xEC, CHR 0x97, CHR 0x86, CHR 0xEC, CHR 0x8A, CHR 0xB5, CHR 0xEB, CHR 0x8B, CHR 0x88,
     CHR 0xEB, CHR 0x8B, CHR 0xA4] @ ''.''"

definition render :: "Language \<Rightarrow> Trade list \<Rightarrow> SummaryTrading \<Rightarrow> page_section list" where
  "render lang history summary =
    [PageHeader (or_zero (total_trades summary)),
     StatCards (or_zero (total_trades summary)) (or_zero (win_rate summary))
       (or_zero (avg_profit_rate summary)) (or_zero (avg_holding_days summary))] @
    (if length history > 0 then [BestWorstCards (bestTrade history) (worstTrade history)] else []) @
    (if length history > 0 then
       [PerformanceCards
          (if length (sortedSectors lang history) > 0 then Some (sortedSectors lang history)
           else None)
          (if length (map fst (periodPerformance lang history)) > 0
           then Some (Object_entries (periodPerformance lang history)) else None)]
     else []) @
    [TradeListCard (map (\<lambda>trade. (trade, fst (target_achievement trade))) history)] @
    (if length history = 0 then [EmptyState empty_state_message] else [])"

text \<open>The component: \<^verbatim>\<open>useLanguage()\<close> comes first and may throw.\<close>

definition TradingHistoryPage ::
  "LanguageContextType list \<Rightarrow> Trade list \<Rightarrow> SummaryTrading \<Rightarrow> error + page_section list" where
  "TradingHistoryPage providers history summary =
    (case useLanguage providers of
       Inl e \<Rightarrow> Inl e
     | Inr context \<Rightarrow> Inr (render context history summary))"

section \<open>Definitions for the statements\<close>

text \<open>
  The three assignments of a reducer on the group of a trade with profit rate \<open>p\<close>,
  as one step.
\<close>

definition add_rate :: "real \<Rightarrow> group_stats \<Rightarrow> group_stats" where
  "add_rate p g = \<lparr>total = total g + p, count = count g + 1,
     avgProfit = (total g + p) / real (count g + 1)\<rparr>"

text \<open>
  What the spec says the group \<open>k\<close> holds: the number, the sum and the arithmetic mean
  of the profit rates of exactly the trades whose label is \<open>k\<close>.
\<close>

definition expected_group :: "(Trade \<Rightarrow> string) \<Rightarrow> string \<Rightarrow> Trade list \<Rightarrow> group_stats" where
  "expected_group label k history =
    (let rates = map profit_rate (filter (\<lambda>trade. label trade = k) history)
     in \<lparr>total = sum_list rates, count = length rates,
         avgProfit = sum_list rates / real (length rates)\<rparr>)"

text \<open>
  Example data: a trade with a given sell price, profit rate and scenario; a scenario
  that has only a sector; a scenario that has only a target price.
\<close>

definition example_trade :: "real \<Rightarrow> real \<Rightarrow> Scenario option \<Rightarrow> Trade" where
  "example_trade sell rate sc =
    \<lparr>trade_id = 1, ticker = ''005930'', company_name = ''Samsung Electronics'',
     buy_price = 10000, sell_price = sell, buy_date = ''2025-10-01'',
     sell_date = ''2025-10-15'', holding_days = 14, profit_rate = rate, scenario = sc\<rparr>"

definition in_sector :: "string \<Rightarrow> Scenario option" where
  "in_sector s = Some \<lparr>sector = Some s, investment_period = None, target_price = None\<rparr>"

definition with_target :: "real \<Rightarrow> Scenario option" where
  "with_target p = Some \<lparr>sector = None, investment_period = None, target_price = Some p\<rparr>"

section \<open>Helper lemmas\<close>

subsection \<open>Decimal digits\<close>

lemma digit_char_code: "d < 10 \<Longrightarrow> (of_char (''0123456789'' ! d) :: nat) = 48 + d"
proof -
  assume "d < 10"
  then have "d \<in> {0, 1, 2, 3, 4, 5, 6, 7, 8, 9}" by auto
  then show ?thesis by auto
qed

lemma digits_value_snoc:
  "digits_value (s @ [c]) = 10 * digits_value s + ((of_char c :: nat) - 48)"
  by (simp add: digits_value_def)

lemma digits_value_decimal: "digits_value (decimal n) = n"
proof (induction n rule: decimal.induct)
  case (1 n)
  show ?case
  proof (cases "n < 10")
    case True
    then show ?thesis
      using digit_char_code [of n] by (subst decimal.simps) (simp add: digits_value_def)
  next
    case False
    then have "digits_value (decimal (n div 10)) = n div 10"
      using "1.IH" by simp
    moreover have "(of_char (''0123456789'' ! (n mod 10)) :: nat) = 48 + n mod 10"
      by (rule digit_char_code) simp
    ultimately show ?thesis
      using False by (subst decimal.simps) (simp add: digits_value_snoc)
  qed
qed

subsection \<open>Sorting\<close>

lemma set_insert_by: "set (insert_by cmp x ys) = insert x (set ys)"
  by (induction ys) auto

lemma length_insert_by: "length (insert_by cmp x ys) = Suc (length ys)"
  by (induction ys) auto

lemma length_js_sort: "length (js_sort cmp xs) = length xs"
  by (induction xs) (simp_all add: js_sort_def length_insert_by)

lemma set_js_sort: "set (js_sort cmp xs) = set xs"
  by (induction xs) (simp_all add: js_sort_def set_insert_by)

lemma sorted_insert_by:
  "sorted_wrt (\<lambda>a b. key b \<le> key a) ys \<Longrightarrow>
   sorted_wrt (\<lambda>a b. key b \<le> key a) (insert_by (\<lambda>a b. key b - key a) x ys)"
  for key :: "'a \<Rightarrow> real"
  by (induction ys) (auto simp: set_insert_by)

lemma sorted_js_sort:
  "sorted_wrt (\<lambda>a b. key b \<le> key a) (js_sort (\<lambda>a b. key b - key a) xs)"
  for key :: "'a \<Rightarrow> real"
  by (induction xs) (simp_all add: js_sort_def sorted_insert_by)

lemma length_Object_entries: "length (Object_entries obj) = length obj"
  by (simp add: Object_entries_def sum_length_filter_compl)

lemma set_Object_entries: "set (Object_entries obj) = set obj"
  by (auto simp: Object_entries_def)

subsection \<open>Best and worst\<close>

lemma foldl_best:
  "profit_rate_of b \<le> profit_rate_of (foldl (\<lambda>best trade. if profit_rate trade > profit_rate_of best then A_Trade trade else best) b xs) \<and>
   (\<forall>x\<in>set xs. profit_rate x \<le> profit_rate_of (foldl (\<lambda>best trade. if profit_rate trade > profit_rate_of best then A_Trade trade else best) b xs))"
proof (induction xs arbitrary: b)
  case Nil
  show ?case by simp
next
  case (Cons x xs)
  let ?f = "\<lambda>best trade. if profit_rate trade > profit_rate_of best then A_Trade trade else best"
  have ih: "profit_rate_of (?f b x) \<le> profit_rate_of (foldl ?f (?f b x) xs)"
    "\<forall>y\<in>set xs. profit_rate y \<le> profit_rate_of (foldl ?f (?f b x) xs)"
    using Cons.IH [of "?f b x"] by blast+
  have "profit_rate_of b \<le> profit_rate_of (?f b x)" "profit_rate x \<le> profit_rate_of (?f b x)"
    by simp_all
  with ih show ?case by (simp del: profit_rate_of.simps)
qed

lemma foldl_worst:
  "profit_rate_of (foldl (\<lambda>worst trade. if profit_rate trade < profit_rate_of worst then A_Trade trade else worst) b xs) \<le> profit_rate_of b \<and>
   (\<forall>x\<in>set xs. profit_rate_of (foldl (\<lambda>worst trade. if profit_rate trade < profit_rate_of worst then A_Trade trade else worst) b xs) \<le> profit_rate x)"
proof (induction xs arbitrary: b)
  case Nil
  show ?case by simp
next
  case (Cons x xs)
  let ?f = "\<lambda>worst trade. if profit_rate trade < profit_rate_of worst then A_Trade trade else worst"
  have ih: "profit_rate_of (foldl ?f (?f b x) xs) \<le> profit_rate_of (?f b x)"
    "\<forall>y\<in>set xs. profit_rate_of (foldl ?f (?f b x) xs) \<le> profit_rate y"
    using Cons.IH [of "?f b x"] by blast+
  have "profit_rate_of (?f b x) \<le> profit_rate_of b" "profit_rate_of (?f b x) \<le> profit_rate x"
    by simp_all
  with ih show ?case by (simp del: profit_rate_of.simps)
qed

lemma foldl_pick_member:
  assumes "\<And>b x. f b x = b \<or> f b x = A_Trade x"
  shows "foldl f b xs = b \<or> (\<exists>x\<in>set xs. foldl f b xs = A_Trade x)"
proof (induction xs arbitrary: b)
  case Nil
  show ?case by simp
next
  case (Cons x xs)
  from Cons.IH [of "f b x"] assms [of b x] show ?case by auto
qed

lemma bestTrade_member: "history \<noteq> [] \<Longrightarrow> \<exists>x\<in>set history. bestTrade history = A_Trade x"
proof -
  assume ne: "history \<noteq> []"
  then obtain h rest where h: "history = h # rest" by (cases history) auto
  let ?f = "\<lambda>best trade. if profit_rate trade > profit_rate_of best then A_Trade trade else best"
  have "foldl ?f (A_Trade h) history = A_Trade h \<or> (\<exists>x\<in>set history. foldl ?f (A_Trade h) history = A_Trade x)"
    by (rule foldl_pick_member) simp
  then show ?thesis
    using h by (auto simp: bestTrade_def first_or_placeholder_def)
qed

lemma worstTrade_member: "history \<noteq> [] \<Longrightarrow> \<exists>x\<in>set history. worstTrade history = A_Trade x"
proof -
  assume ne: "history \<noteq> []"
  then obtain h rest where h: "history = h # rest" by (cases history) auto
  let ?f = "\<lambda>worst trade. if profit_rate trade < profit_rate_of worst then A_Trade trade else worst"
  have "foldl ?f (A_Trade h) history = A_Trade h \<or> (\<exists>x\<in>set history. foldl ?f (A_Trade h) history = A_Trade x)"
    by (rule foldl_pick_member) simp
  then show ?thesis
    using h by (auto simp: worstTrade_def first_or_placeholder_def)
qed

subsection \<open>Groups\<close>

lemma update_absent: "map_of al k = None \<Longrightarrow> AList.update k v al = al @ [(k, v)]"
  by (induction al) (auto split: if_splits)

lemma update_snoc: "map_of al k = None \<Longrightarrow> AList.update k v (al @ [(k, w)]) = al @ [(k, v)]"
  by (induction al) (auto split: if_splits)

lemma sum_update_present:
  "map_of al k = Some g \<Longrightarrow>
   sum_list (map f (AList.update k v al)) + f (k, g) = sum_list (map f al) + f (k, v)"
  for f :: "string \<times> 'a \<Rightarrow> nat"
  by (induction al) (auto split: if_splits)

lemma found_after_init:
  "get_property (case get_property acc k of Missing \<Rightarrow> set_property k z acc | _ \<Rightarrow> acc) k
   \<noteq> Missing"
  by (cases "map_of acc k")
    (auto simp: get_property_def set_property_def update_conv' split: property.splits)

lemma add_to_group_cases:
  "add_to_group k p acc =
    (case map_of acc k of
       Some g \<Rightarrow> AList.update k (add_rate p g) acc
     | None \<Rightarrow>
         if k \<in> set object_prototype_keys then acc
         else acc @ [(k, add_rate p \<lparr>total = 0, count = 0, avgProfit = 0\<rparr>)])"
proof (cases "map_of acc k")
  case None
  show ?thesis
  proof (cases "k \<in> set object_prototype_keys")
    case True
    with None show ?thesis
      by (simp add: add_to_group_def get_property_def)
  next
    case False
    let ?zero = "\<lparr>total = 0, count = 0, avgProfit = 0\<rparr>"
    have g: "get_property acc k = Missing"
      using None False by (simp add: get_property_def)
    have acc1: "set_property k ?zero acc = acc @ [(k, ?zero)]"
      using None by (simp add: set_property_def update_absent)
    have own: "get_property (acc @ [(k, ?zero)]) k = Own ?zero"
      using None by (simp add: get_property_def map_add_def)
    have upd: "set_property k v (acc @ [(k, ?zero)]) = acc @ [(k, v)]" for v
      using None by (simp add: set_property_def update_snoc)
    show ?thesis
      using None False
      by (simp add: add_to_group_def g acc1 own upd add_rate_def Let_def)
  qed
next
  case (Some g)
  then show ?thesis
    by (cases g) (simp add: add_to_group_def get_property_def set_property_def add_rate_def Let_def)
qed

lemma map_of_add_to_group:
  "map_of (add_to_group k p acc) =
    (case map_of acc k of
       Some g \<Rightarrow> (map_of acc)(k \<mapsto> add_rate p g)
     | None \<Rightarrow>
         if k \<in> set object_prototype_keys then map_of acc
         else (map_of acc)(k \<mapsto> add_rate p \<lparr>total = 0, count = 0, avgProfit = 0\<rparr>))"
  by (auto simp: add_to_group_cases update_conv' map_add_def fun_eq_iff split: option.splits)

lemma distinct_add_to_group:
  "distinct (map fst acc) \<Longrightarrow> distinct (map fst (add_to_group k p acc))"
  by (auto simp: add_to_group_cases distinct_update map_of_eq_None_iff split: option.splits)

lemma count_add_to_group:
  "sum_list (map (\<lambda>e. count (snd e)) (add_to_group k p acc)) =
   sum_list (map (\<lambda>e. count (snd e)) acc) +
   (if map_of acc k = None \<and> k \<in> set object_prototype_keys then 0 else 1)"
proof (cases "map_of acc k")
  case None
  then show ?thesis by (simp add: add_to_group_cases add_rate_def)
next
  case (Some g)
  from sum_update_present [OF Some, of "\<lambda>e. count (snd e)" "add_rate p g"]
  show ?thesis using Some by (simp add: add_to_group_cases add_rate_def)
qed

lemma groups_fold:
  fixes label :: "Trade \<Rightarrow> string"
  shows "distinct (map fst (foldl (\<lambda>acc trade. add_to_group (label trade) (profit_rate trade) acc) [] history)) \<and>
   map_of (foldl (\<lambda>acc trade. add_to_group (label trade) (profit_rate trade) acc) [] history) k =
    (if k \<in> label ` set history \<and> k \<notin> set object_prototype_keys
     then Some (expected_group label k history) else None)"
proof (induction history arbitrary: k rule: rev_induct)
  case Nil
  show ?case by simp
next
  case (snoc x xs)
  let ?acc = "foldl (\<lambda>acc trade. add_to_group (label trade) (profit_rate trade) acc) [] xs"
  have d: "distinct (map fst ?acc)" using snoc.IH by blast
  have m: "map_of ?acc k' =
    (if k' \<in> label ` set xs \<and> k' \<notin> set object_prototype_keys
     then Some (expected_group label k' xs) else None)" for k'
    using snoc.IH by blast
  have step: "add_rate (profit_rate x) (expected_group label (label x) xs) = expected_group label (label x) (xs @ [x])"
    by (simp add: add_rate_def expected_group_def Let_def)
  have first: "label x \<notin> label ` set xs \<Longrightarrow>
    add_rate (profit_rate x) \<lparr>total = 0, count = 0, avgProfit = 0\<rparr> = expected_group label (label x) (xs @ [x])"
  proof -
    assume "label x \<notin> label ` set xs"
    then have "\<forall>trade\<in>set xs. label trade \<noteq> label x"
      by (metis imageI)
    then have "filter (\<lambda>trade. label trade = label x) xs = []"
      by (simp add: filter_empty_conv)
    then show ?thesis by (simp add: add_rate_def expected_group_def Let_def)
  qed
  have other: "k \<noteq> label x \<Longrightarrow> expected_group label k (xs @ [x]) = expected_group label k xs"
    by (simp add: expected_group_def)
  show ?case
  proof
    show "distinct (map fst (foldl (\<lambda>acc trade. add_to_group (label trade) (profit_rate trade) acc) [] (xs @ [x])))"
      using d by (simp add: distinct_add_to_group)
  next
    show "map_of (foldl (\<lambda>acc trade. add_to_group (label trade) (profit_rate trade) acc) [] (xs @ [x])) k =
      (if k \<in> label ` set (xs @ [x]) \<and> k \<notin> set object_prototype_keys
       then Some (expected_group label k (xs @ [x])) else None)"
    proof (cases "k = label x")
      case True
      then show ?thesis
        using m [of "label x"] step first
        by (simp add: map_of_add_to_group split: option.splits)
    next
      case False
      then show ?thesis
        using m [of k] m [of "label x"] other
        by (auto simp add: map_of_add_to_group split: option.splits)
    qed
  qed
qed

lemma counts_fold:
  fixes label :: "Trade \<Rightarrow> string"
  shows "sum_list (map (\<lambda>e. count (snd e)) (foldl (\<lambda>acc trade. add_to_group (label trade) (profit_rate trade) acc) [] history)) =
   length (filter (\<lambda>trade. label trade \<notin> set object_prototype_keys) history)"
proof (induction history rule: rev_induct)
  case Nil
  show ?case by simp
next
  case (snoc x xs)
  let ?acc = "foldl (\<lambda>acc trade. add_to_group (label trade) (profit_rate trade) acc) [] xs"
  have "label x \<notin> set object_prototype_keys \<or> map_of ?acc (label x) = None"
    using groups_fold [of label xs "label x"] by auto
  then show ?case
    using snoc.IH by (auto simp: count_add_to_group)
qed

lemma fallback_keys:
  "t lang ''common.other'' = JString ''common.other''"
  "t lang ''common.unclassified'' = JString ''common.unclassified''"
  by (cases lang; simp add: t_def get_property_def object_prototype_keys_def)+


lemma example_labels:
  "sector_label lang (example_trade s r None) = ''common.other''"
  "sector_label lang (example_trade s r (with_target p)) = ''common.other''"
  "sector_label lang (example_trade s r (in_sector (c # cs))) = c # cs"
  "period_label lang (example_trade s r None) = ''common.unclassified''"
  "period_label lang (example_trade s r (in_sector k)) = ''common.unclassified''"
  "profit_rate (example_trade s r sc) = r"
  by (simp_all add: sector_label_def period_label_def fallback_keys or_else_def
      example_trade_def in_sector_def with_target_def)

lemmas group_eval = sectorPerformance_def periodPerformance_def example_labels
  add_to_group_cases add_rate_def object_prototype_keys_def

lemma spec_example_groups: "sectorPerformance Ko [example_trade 0 5 (in_sector ''tech''), example_trade 0 (-3) (in_sector ''tech''), example_trade 0 10 (in_sector ''finance'')]
  = [(''tech'', \<lparr>total = 2, count = 2, avgProfit = 1\<rparr>), (''finance'', \<lparr>total = 10, count = 1, avgProfit = 10\<rparr>)]"
  by (simp add: group_eval)

lemma not_array_index: "\<not> is_digit c \<Longrightarrow> \<not> is_array_index (c # cs)"
  by (simp add: is_array_index_def)

lemma example_sector_groups: "sectorPerformance En
    [example_trade 0 5 (in_sector ''tech''), example_trade 0 (-3) (in_sector ''bio''),
     example_trade 0 10 (in_sector ''finance''), example_trade 0 7 (in_sector ''energy''),
     example_trade 0 1 (in_sector ''tech'')] =
   [(''tech'', \<lparr>total = 6, count = 2, avgProfit = 3\<rparr>),
    (''bio'', \<lparr>total = - 3, count = 1, avgProfit = - 3\<rparr>),
    (''finance'', \<lparr>total = 10, count = 1, avgProfit = 10\<rparr>),
    (''energy'', \<lparr>total = 7, count = 1, avgProfit = 7\<rparr>)]"
  by (simp add: group_eval)

lemma example_top3: "sortedSectors En
    [example_trade 0 5 (in_sector ''tech''), example_trade 0 (-3) (in_sector ''bio''),
     example_trade 0 10 (in_sector ''finance''), example_trade 0 7 (in_sector ''energy''),
     example_trade 0 1 (in_sector ''tech'')] =
   [(''finance'', \<lparr>total = 10, count = 1, avgProfit = 10\<rparr>),
    (''energy'', \<lparr>total = 7, count = 1, avgProfit = 7\<rparr>),
    (''tech'', \<lparr>total = 6, count = 2, avgProfit = 3\<rparr>)]"
  by (simp add: sortedSectors_def example_sector_groups Object_entries_def not_array_index is_digit_def js_sort_def)

lemma spec_example_top3:
  "sortedSectors Ko [example_trade 0 5 (in_sector ''tech''),
     example_trade 0 (- 3) (in_sector ''tech''), example_trade 0 10 (in_sector ''finance'')] =
   [(''finance'', \<lparr>total = 10, count = 1, avgProfit = 10\<rparr>),
    (''tech'', \<lparr>total = 2, count = 2, avgProfit = 1\<rparr>)]"
  by (simp add: sortedSectors_def spec_example_groups Object_entries_def not_array_index
      is_digit_def js_sort_def)

text \<open>
  Every group a reducer produces holds exactly what the spec says, and the counts add
  up to the number of trades whose label is not the name of an inherited built-in.
\<close>

lemma group_stats_correct:
  fixes label :: "Trade \<Rightarrow> string"
  assumes "(k, g) \<in> set (foldl (\<lambda>acc trade. add_to_group (label trade) (profit_rate trade) acc) [] history)"
  shows "g = expected_group label k history \<and> 0 < count g \<and> k \<in> label ` set history"
proof -
  let ?acc = "foldl (\<lambda>acc trade. add_to_group (label trade) (profit_rate trade) acc) [] history"
  have "distinct (map fst ?acc)" using groups_fold [of label history k] by blast
  with assms have "map_of ?acc k = Some g" by simp
  then have g: "k \<in> label ` set history" "g = expected_group label k history"
    using groups_fold [of label history k] by (auto split: if_splits)
  then obtain x where "x \<in> set history" "label x = k" by auto
  then have "filter (\<lambda>trade. label trade = k) history \<noteq> []"
    by (auto simp: filter_empty_conv)
  then have "0 < count (expected_group label k history)"
    by (simp add: expected_group_def Let_def)
  with g show ?thesis by simp
qed

lemma sector_groups_correct:
  assumes "(k, g) \<in> set (sectorPerformance lang history)"
  shows "g = expected_group (sector_label lang) k history \<and> 0 < count g"
  using group_stats_correct [OF assms [unfolded sectorPerformance_def]] by blast

lemma period_groups_correct:
  assumes "(k, g) \<in> set (periodPerformance lang history)"
  shows "g = expected_group (period_label lang) k history \<and> 0 < count g"
  using group_stats_correct [OF assms [unfolded periodPerformance_def]] by blast

lemma sector_counts_sum:
  "sum_list (map (\<lambda>e. count (snd e)) (sectorPerformance lang history)) =
   length (filter (\<lambda>trade. sector_label lang trade \<notin> set object_prototype_keys) history)"
  unfolding sectorPerformance_def by (rule counts_fold)

lemma period_counts_sum:
  "sum_list (map (\<lambda>e. count (snd e)) (periodPerformance lang history)) =
   length (filter (\<lambda>trade. period_label lang trade \<notin> set object_prototype_keys) history)"
  unfolding periodPerformance_def by (rule counts_fold)

lemma counts_sum_total:
  assumes "\<forall>trade\<in>set history. sector_label lang trade \<notin> set object_prototype_keys"
  shows "sum_list (map (\<lambda>e. count (snd e)) (sectorPerformance lang history)) = length history"
  using assms by (simp add: sector_counts_sum)

subsection \<open>Translation\<close>

lemma t_missing_key:
  "map_of (translations_dict lang) key = None \<Longrightarrow> key \<notin> set object_prototype_keys \<Longrightarrow>
   t lang key = JString key"
  by (simp add: t_def get_property_def)

lemma t_nonexistent_key: "t lang ''nonexistent.key'' = JString ''nonexistent.key''"
  by (cases lang; simp add: t_def get_property_def object_prototype_keys_def)

subsection \<open>Rounding\<close>

lemma nearest_integer:
  fixes y :: real
  assumes "0 \<le> y"
  shows "\<bar>real (nat \<lfloor>y + 1 / 2\<rfloor>) - y\<bar> \<le> 1 / 2"
proof -
  have "0 \<le> \<lfloor>y + 1 / 2\<rfloor>" using assms by simp
  then have "real (nat \<lfloor>y + 1 / 2\<rfloor>) = of_int \<lfloor>y + 1 / 2\<rfloor>" by simp
  moreover have "of_int \<lfloor>y + 1 / 2\<rfloor> \<le> y + 1 / 2" by (rule of_int_floor_le)
  moreover have "y + 1 / 2 < of_int \<lfloor>y + 1 / 2\<rfloor> + 1" by linarith
  ultimately show ?thesis by linarith
qed

lemma toFixed0_negative:
  "x < 0 \<Longrightarrow> \<not> c \<le> - x \<Longrightarrow>
   (let s = (if x < 0 then ''-'' else []); y = (if x < 0 then - x else x)
    in if c \<le> y then s @ exponential y else s @ decimal (nat \<lfloor>y + 1 / 2\<rfloor>)) =
   ''-'' @ decimal (nat \<lfloor>- x + 1 / 2\<rfloor>)"
  for x c :: real
  by (simp only: Let_def if_True if_False)

lemma toFixed0_positive:
  "\<not> x < 0 \<Longrightarrow> \<not> c \<le> x \<Longrightarrow>
   (let s = (if x < 0 then ''-'' else []); y = (if x < 0 then - x else x)
    in if c \<le> y then s @ exponential y else s @ decimal (nat \<lfloor>y + 1 / 2\<rfloor>)) =
   [] @ decimal (nat \<lfloor>x + 1 / 2\<rfloor>)"
  for x c :: real
  by (simp only: Let_def if_True if_False)

lemma toFixed0_rounds:
  assumes "\<bar>x\<bar> < 10 ^ 21"
  shows "\<exists>n. \<bar>real n - \<bar>x\<bar>\<bar> \<le> 1 / 2 \<and>
    toFixed0 (Finite x) = (if x < 0 then ''-'' else []) @ decimal n"
proof (cases "x < 0")
  case True
  with assms have "\<not> 10 ^ 21 \<le> - x" by linarith
  with True have "toFixed0 (Finite x) = ''-'' @ decimal (nat \<lfloor>- x + 1 / 2\<rfloor>)"
    unfolding toFixed0_def js_number.case by (rule toFixed0_negative)
  moreover have "\<bar>real (nat \<lfloor>- x + 1 / 2\<rfloor>) - \<bar>x\<bar>\<bar> \<le> 1 / 2"
    using nearest_integer [of "- x"] True by simp
  ultimately show ?thesis
    using True by (intro exI [of _ "nat \<lfloor>- x + 1 / 2\<rfloor>"]) (simp only: if_True simp_thms)
next
  case False
  with assms have "\<not> 10 ^ 21 \<le> x" by linarith
  with False have "toFixed0 (Finite x) = [] @ decimal (nat \<lfloor>x + 1 / 2\<rfloor>)"
    unfolding toFixed0_def js_number.case by (rule toFixed0_positive)
  moreover have "\<bar>real (nat \<lfloor>x + 1 / 2\<rfloor>) - \<bar>x\<bar>\<bar> \<le> 1 / 2"
    using nearest_integer [of x] False by simp
  ultimately show ?thesis
    using False by (intro exI [of _ "nat \<lfloor>x + 1 / 2\<rfloor>"]) (simp only: if_False simp_thms)
qed

lemma round_double_not_NaN: "round_double x \<noteq> NaN"
  by (simp add: round_double_def Let_def)

lemma ratio_not_NaN: "target \<noteq> 0 \<Longrightarrow> js_mul (js_div a target) 100 \<noteq> NaN"
  by (cases "round_double (a / target)") (simp_all add: js_div_def round_double_not_NaN)

lemma toFixed0_large_negative:
  "x < 0 \<Longrightarrow> c \<le> - x \<Longrightarrow>
   (let s = (if x < 0 then ''-'' else []); y = (if x < 0 then - x else x)
    in if c \<le> y then s @ exponential y else s @ decimal (nat \<lfloor>y + 1 / 2\<rfloor>)) =
   ''-'' @ exponential (- x)"
  for x c :: real
  by (simp only: Let_def if_True if_False)

lemma toFixed0_large_positive:
  "\<not> x < 0 \<Longrightarrow> c \<le> x \<Longrightarrow>
   (let s = (if x < 0 then ''-'' else []); y = (if x < 0 then - x else x)
    in if c \<le> y then s @ exponential y else s @ decimal (nat \<lfloor>y + 1 / 2\<rfloor>)) =
   [] @ exponential x"
  for x c :: real
  by (simp only: Let_def if_True if_False)

lemma toFixed0_large:
  assumes "10 ^ 21 \<le> \<bar>x\<bar>"
  shows "toFixed0 (Finite x) = (if x < 0 then ''-'' else []) @ exponential \<bar>x\<bar>"
proof (cases "x < 0")
  case True
  with assms have "10 ^ 21 \<le> - x" by linarith
  with True have "toFixed0 (Finite x) = ''-'' @ exponential (- x)"
    unfolding toFixed0_def js_number.case by (rule toFixed0_large_negative)
  moreover have "\<bar>x\<bar> = - x" using True by simp
  ultimately show ?thesis using True by (simp only: if_True)
next
  case False
  with assms have "10 ^ 21 \<le> x" by linarith
  with False have "toFixed0 (Finite x) = [] @ exponential x"
    unfolding toFixed0_def js_number.case by (rule toFixed0_large_positive)
  moreover have "\<bar>x\<bar> = x" using False by simp
  ultimately show ?thesis using False by (simp only: if_False)
qed

lemma toFixed0_infinite:
  "toFixed0 PosInfinity = ''Infinity''" "toFixed0 NegInfinity = ''-Infinity''"
  by (simp_all add: toFixed0_def)

subsection \<open>Two target achievements, step by step\<close>

text \<open>
  Sold at 11000 with the target 10000: the quotient is the double next to 1.1 and the
  product the double next above 110.
\<close>

lemma example_quotient:
  "js_div 11000 10000 = Finite (2476979795053773 / 2251799813685248)"
  unfolding js_div_def round_double_def Let_def
  apply (simp add: binade_def binade_up.simps binade_down.simps)
  apply (simp add: pow2_def)
  apply (simp add: round_half_even_def Let_def)
  done

lemma example_product:
  "js_mul (Finite (2476979795053773 / 2251799813685248)) 100 =
   Finite (7740561859543041 / 70368744177664)"
  unfolding js_mul.simps round_double_def Let_def
  apply (simp add: binade_def binade_up.simps binade_down.simps)
  apply (simp add: pow2_def)
  apply (simp add: round_half_even_def Let_def)
  done

lemma example_double:
  "js_mul (js_div 11000 10000) 100 = Finite (7740561859543041 / 70368744177664)"
  by (simp only: example_quotient example_product)

text \<open>
  Sold at 3679285080581904 with the target 5218844085931779: the exact ratio is below
  70.5, the quotient rounds to the double next to 0.705 and the product to 70.5 exactly.
\<close>

lemma tie_quotient:
  "js_div 3679285080581904 5218844085931779 = Finite (6350075474592399 / 9007199254740992)"
  unfolding js_div_def round_double_def Let_def
  apply (simp add: binade_def binade_up.simps binade_down.simps)
  apply (simp add: pow2_def)
  apply (simp add: round_half_even_def Let_def)
  done

lemma tie_product:
  "js_mul (Finite (6350075474592399 / 9007199254740992)) 100 = Finite (141 / 2)"
  unfolding js_mul.simps round_double_def Let_def
  apply (simp add: binade_def binade_up.simps binade_down.simps)
  apply (simp add: pow2_def)
  apply (simp add: round_half_even_def Let_def)
  done

lemma tie_double:
  "js_mul (js_div 3679285080581904 5218844085931779) 100 = Finite (141 / 2)"
  by (simp only: tie_quotient tie_product)

section \<open>The claims\<close>

subsection \<open>C1: best and worst trade\<close>

text \<open>
  C1. For every non-empty trade list, the best trade is a trade of the list whose profit
  rate is greater than or equal to the profit rate of every trade in the list, and the
  worst trade is a trade of the list whose profit rate is less than or equal to the profit
  rate of every trade in the list.
\<close>

theorem best_worst_trade:
  "history \<noteq> [] \<Longrightarrow>
   (\<exists>b\<in>set history. bestTrade history = A_Trade b) \<and>
   (\<exists>w\<in>set history. worstTrade history = A_Trade w) \<and>
   (\<forall>trade\<in>set history.
      profit_rate trade \<le> profit_rate_of (bestTrade history) \<and>
      profit_rate_of (worstTrade history) \<le> profit_rate trade)"
  using foldl_best [of "first_or_placeholder history" history]
    foldl_worst [of "first_or_placeholder history" history]
    bestTrade_member [of history] worstTrade_member [of history]
  unfolding bestTrade_def worstTrade_def by blast

theorem best_worst_trade_witness:
  "[example_trade 0 5 None, example_trade 0 (- 3) None, example_trade 0 10 None] \<noteq> [] \<and>
   profit_rate_of (bestTrade [example_trade 0 5 None, example_trade 0 (- 3) None,
     example_trade 0 10 None]) = 10 \<and>
   profit_rate_of (worstTrade [example_trade 0 5 None, example_trade 0 (- 3) None,
     example_trade 0 10 None]) = - 3"
  using best_worst_trade
    [of "[example_trade 0 5 None, example_trade 0 (- 3) None, example_trade 0 10 None]"]
  by (simp add: bestTrade_def worstTrade_def first_or_placeholder_def example_labels)

subsection \<open>C2: group averages and counts\<close>

text \<open>
  C2, at an input where it fails. A single trade whose sector is \<^verbatim>\<open>"constructor"\<close>:
  the reducer finds the inherited \<^verbatim>\<open>Object.prototype.constructor\<close> under that name,
  creates no group, and the aggregation has no group at all. The group counts sum to 0
  and the list has 1 trade. (\<open>sector_groups_correct\<close>, \<open>period_groups_correct\<close>,
  \<open>sector_counts_sum\<close> and \<open>period_counts_sum\<close> above say what holds for every input.)
\<close>

theorem inherited_label_lost:
  "sectorPerformance Ko [example_trade 0 5 (in_sector ''constructor'')] = [] \<and>
   sum_list (map (\<lambda>e. count (snd e))
     (sectorPerformance Ko [example_trade 0 5 (in_sector ''constructor'')])) = 0 \<and>
   length [example_trade 0 5 (in_sector ''constructor'')] = 1"
  by (simp add: group_eval)

subsection \<open>C3: the top three sectors\<close>

text \<open>
  C3. For every trade list, the top-3 sector list is sorted in descending order of
  average profit rate and has at most 3 entries, however many sectors there are: it has
  3 entries, or all the groups when they are fewer, and each entry is a group of the
  sector aggregation.
\<close>

theorem top3_sectors:
  "sorted_wrt (\<lambda>a b. avgProfit (snd b) \<le> avgProfit (snd a)) (sortedSectors lang history) \<and>
   length (sortedSectors lang history) \<le> 3 \<and>
   length (sortedSectors lang history) = min 3 (length (sectorPerformance lang history)) \<and>
   set (sortedSectors lang history) \<subseteq> set (sectorPerformance lang history)"
proof -
  let ?sorted = "js_sort (\<lambda>a b. avgProfit (snd b) - avgProfit (snd a))
    (Object_entries (sectorPerformance lang history))"
  have "sorted_wrt (\<lambda>a b. avgProfit (snd b) \<le> avgProfit (snd a)) ?sorted"
    by (rule sorted_js_sort [of "\<lambda>e. avgProfit (snd e)"])
  then have "sorted_wrt (\<lambda>a b. avgProfit (snd b) \<le> avgProfit (snd a)) (take 3 ?sorted)"
    by (rule sorted_wrt_take)
  moreover have "length (take 3 ?sorted) = min 3 (length (sectorPerformance lang history))"
    by (simp add: length_js_sort length_Object_entries min.commute)
  moreover have "set (take 3 ?sorted) \<subseteq> set (sectorPerformance lang history)"
    using set_take_subset [of 3 ?sorted] by (simp add: set_js_sort set_Object_entries)
  ultimately show ?thesis by (simp add: sortedSectors_def)
qed

text \<open>Four sectors: the list keeps the three best, in descending order.\<close>

theorem top3_sectors_witness:
  "length (sectorPerformance En
     [example_trade 0 5 (in_sector ''tech''), example_trade 0 (- 3) (in_sector ''bio''),
      example_trade 0 10 (in_sector ''finance''), example_trade 0 7 (in_sector ''energy''),
      example_trade 0 1 (in_sector ''tech'')]) = 4 \<and>
   map (\<lambda>e. (fst e, avgProfit (snd e))) (sortedSectors En
     [example_trade 0 5 (in_sector ''tech''), example_trade 0 (- 3) (in_sector ''bio''),
      example_trade 0 10 (in_sector ''finance''), example_trade 0 7 (in_sector ''energy''),
      example_trade 0 1 (in_sector ''tech'')]) =
     [(''finance'', 10), (''energy'', 7), (''tech'', 3)]"
  using top3_sectors [of En
     "[example_trade 0 5 (in_sector ''tech''), example_trade 0 (- 3) (in_sector ''bio''),
      example_trade 0 10 (in_sector ''finance''), example_trade 0 7 (in_sector ''energy''),
      example_trade 0 1 (in_sector ''tech'')]"]
  by (simp add: example_sector_groups example_top3)

subsection \<open>C4: the empty trade list\<close>

text \<open>
  C4, as stated, fails: for the empty trade list the page still renders the four summary
  cards and the frame of the trade list.
\<close>

theorem empty_history_keeps_cards:
  "StatCards 0 0 0 0 \<in> set (render Ko []
      \<lparr>total_trades = None, win_rate = None, avg_profit_rate = None, avg_holding_days = None\<rparr>) \<and>
   TradeListCard [] \<in> set (render Ko []
      \<lparr>total_trades = None, win_rate = None, avg_profit_rate = None, avg_holding_days = None\<rparr>)"
  by (simp add: render_def or_zero_def)

text \<open>
  C4, amended. For the empty trade list, the best-trade and worst-trade profit rates are
  both 0, and the page inside a provider renders exactly: the header, the four summary
  cards, the trade list card with no trade in it, and the empty-state message. The
  best/worst cards and the sector and period cards are not rendered.
\<close>

theorem empty_history_page:
  "profit_rate_of (bestTrade []) = 0 \<and> profit_rate_of (worstTrade []) = 0 \<and>
   TradingHistoryPage (lang # providers) [] summary =
     Inr [PageHeader (or_zero (total_trades summary)),
          StatCards (or_zero (total_trades summary)) (or_zero (win_rate summary))
            (or_zero (avg_profit_rate summary)) (or_zero (avg_holding_days summary)),
          TradeListCard [],
          EmptyState empty_state_message]"
  by (simp add: bestTrade_def worstTrade_def first_or_placeholder_def TradingHistoryPage_def
      useLanguage_def useContext_def render_def)

subsection \<open>C5: the fallback labels\<close>

text \<open>
  C5, as stated, fails: a trade without a scenario is grouped under
  \<^verbatim>\<open>"common.other"\<close> and \<^verbatim>\<open>"common.unclassified"\<close>, and no group is labelled
  \<^verbatim>\<open>"other"\<close> or \<^verbatim>\<open>"unclassified"\<close>.
\<close>

theorem fallback_labels_counterexample:
  "sector_label Ko (example_trade 0 5 None) = ''common.other'' \<and>
   sector_label Ko (example_trade 0 5 None) \<noteq> ''other'' \<and>
   map_of (sectorPerformance Ko [example_trade 0 5 None]) ''other'' = None \<and>
   period_label Ko (example_trade 0 5 None) = ''common.unclassified'' \<and>
   period_label Ko (example_trade 0 5 None) \<noteq> ''unclassified'' \<and>
   map_of (periodPerformance Ko [example_trade 0 5 None]) ''unclassified'' = None"
  by (simp add: group_eval)

text \<open>
  C5, amended. Every trade of the list whose scenario is absent or has no sector is
  grouped by the sector aggregation under the label that \<open>t\<close> returns for the key
  \<^verbatim>\<open>"common.other"\<close>, and every trade whose scenario is absent or has no investment
  period is grouped by the period aggregation under the label that \<open>t\<close> returns for
  \<^verbatim>\<open>"common.unclassified"\<close>: the aggregation has a group with that label, which
  counts the trades with the same label, this one among them.
\<close>

theorem fallback_labels:
  assumes "trade \<in> set history"
  shows
   "(scenario trade = None \<or> (\<exists>sc. scenario trade = Some sc \<and> sector sc = None) \<longrightarrow>
      sector_label lang trade = property_key (t lang ''common.other'') \<and>
      (\<exists>g. (property_key (t lang ''common.other''), g) \<in> set (sectorPerformance lang history) \<and>
           count g = length (filter (\<lambda>x. sector_label lang x = sector_label lang trade) history) \<and>
           0 < count g)) \<and>
    (scenario trade = None \<or> (\<exists>sc. scenario trade = Some sc \<and> investment_period sc = None) \<longrightarrow>
      period_label lang trade = property_key (t lang ''common.unclassified'') \<and>
      (\<exists>g. (property_key (t lang ''common.unclassified''), g) \<in> set (periodPerformance lang history) \<and>
           count g = length (filter (\<lambda>x. period_label lang x = period_label lang trade) history) \<and>
           0 < count g))"
proof (intro conjI impI)
  assume a: "scenario trade = None \<or> (\<exists>sc. scenario trade = Some sc \<and> sector sc = None)"
  then show l: "sector_label lang trade = property_key (t lang ''common.other'')"
    by (auto simp: sector_label_def or_else_def)
  have k1: "sector_label lang trade \<in> sector_label lang ` set history"
    using assms by (rule imageI)
  have k2: "sector_label lang trade \<notin> set object_prototype_keys"
    by (simp add: l fallback_keys object_prototype_keys_def)
  from k1 k2 have m: "map_of (sectorPerformance lang history) (sector_label lang trade) =
      Some (expected_group (sector_label lang) (sector_label lang trade) history)"
    using groups_fold [of "sector_label lang" history "sector_label lang trade"]
    by (simp add: sectorPerformance_def)
  have "filter (\<lambda>x. sector_label lang x = sector_label lang trade) history \<noteq> []"
    using assms by (auto simp: filter_empty_conv)
  then show "\<exists>g. (property_key (t lang ''common.other''), g) \<in> set (sectorPerformance lang history) \<and>
      count g = length (filter (\<lambda>x. sector_label lang x = sector_label lang trade) history) \<and>
      0 < count g"
    using map_of_SomeD [OF m] l by (auto simp: expected_group_def Let_def)
next
  assume a: "scenario trade = None \<or> (\<exists>sc. scenario trade = Some sc \<and> investment_period sc = None)"
  then show l: "period_label lang trade = property_key (t lang ''common.unclassified'')"
    by (auto simp: period_label_def or_else_def)
  have k1: "period_label lang trade \<in> period_label lang ` set history"
    using assms by (rule imageI)
  have k2: "period_label lang trade \<notin> set object_prototype_keys"
    by (simp add: l fallback_keys object_prototype_keys_def)
  from k1 k2 have m: "map_of (periodPerformance lang history) (period_label lang trade) =
      Some (expected_group (period_label lang) (period_label lang trade) history)"
    using groups_fold [of "period_label lang" history "period_label lang trade"]
    by (simp add: periodPerformance_def)
  have "filter (\<lambda>x. period_label lang x = period_label lang trade) history \<noteq> []"
    using assms by (auto simp: filter_empty_conv)
  then show "\<exists>g. (property_key (t lang ''common.unclassified''), g) \<in> set (periodPerformance lang history) \<and>
      count g = length (filter (\<lambda>x. period_label lang x = period_label lang trade) history) \<and>
      0 < count g"
    using map_of_SomeD [OF m] l by (auto simp: expected_group_def Let_def)
qed

theorem fallback_labels_witness:
  "example_trade 0 5 None \<in> set [example_trade 0 7 (in_sector ''tech''), example_trade 0 5 None] \<and>
   scenario (example_trade 0 5 None) = None \<and>
   sectorPerformance En [example_trade 0 7 (in_sector ''tech''), example_trade 0 5 None] =
     [(''tech'', \<lparr>total = 7, count = 1, avgProfit = 7\<rparr>),
      (property_key (t En ''common.other''), \<lparr>total = 5, count = 1, avgProfit = 5\<rparr>)] \<and>
   periodPerformance En [example_trade 0 7 (in_sector ''tech''), example_trade 0 5 None] =
     [(property_key (t En ''common.unclassified''), \<lparr>total = 12, count = 2, avgProfit = 6\<rparr>)]"
  using fallback_labels [of "example_trade 0 5 None"
    "[example_trade 0 7 (in_sector ''tech''), example_trade 0 5 None]" En]
  by (simp add: group_eval fallback_keys) (simp add: example_trade_def)

subsection \<open>C6: a key the dictionary does not have\<close>

text \<open>
  C6, at an input where it fails. The key \<^verbatim>\<open>"constructor"\<close> is not in the Korean
  dictionary, and \<open>t\<close> returns the inherited \<^verbatim>\<open>Object.prototype.constructor\<close>, not the
  key. (\<open>t_missing_key\<close> and \<open>t_nonexistent_key\<close> above say what holds: a key that is
  neither in the dictionary nor the name of an inherited built-in comes back unchanged,
  \<^verbatim>\<open>"nonexistent.key"\<close> among them; \<open>t\<close> is total, so it never throws.)
\<close>

theorem t_inherited_key:
  "map_of (translations_dict Ko) ''constructor'' = None \<and>
   t Ko ''constructor'' = JBuiltin ''constructor'' \<and>
   t Ko ''constructor'' \<noteq> JString ''constructor''"
  by (simp add: t_def get_property_def object_prototype_keys_def)

subsection \<open>C7: the persisted language\<close>

text \<open>
  C7. After \<open>setLanguage En\<close> and then \<open>setLanguage Ko\<close>, the storage holds
  \<^verbatim>\<open>"ko"\<close> under \<^verbatim>\<open>"language"\<close>, and a fresh provider mounted on that storage
  reports Korean; in general a fresh provider mounted on a storage that holds a
  supported language reports that language, with no call of \<open>setLanguage\<close>.
\<close>

theorem language_round_trip:
  "localStorage (setLanguage Ko (setLanguage En s)) ''language'' = Some ''ko'' \<and>
   language (LanguageProvider_mount (LanguageProvider_initial
     (localStorage (setLanguage Ko (setLanguage En s))))) = Ko \<and>
   (storage ''language'' = Some (Language_string lang) \<longrightarrow>
      language (LanguageProvider_mount (LanguageProvider_initial storage)) = lang)"
  by (cases lang)
    (simp_all add: setLanguage_def LanguageProvider_mount_def LanguageProvider_initial_def)

theorem language_round_trip_witness:
  "localStorage (setLanguage En (setLanguage Ko (LanguageProvider_initial Map.empty))) ''language''
     = Some (Language_string En) \<and>
   language (LanguageProvider_mount (LanguageProvider_initial
     (localStorage (setLanguage En (setLanguage Ko (LanguageProvider_initial Map.empty)))))) = En"
  using language_round_trip [of "LanguageProvider_initial Map.empty"
    "localStorage (setLanguage En (setLanguage Ko (LanguageProvider_initial Map.empty)))" En]
  by (simp add: setLanguage_def)

subsection \<open>C8: target achievement\<close>

text \<open>
  C8, as stated, fails twice. A trade sold at 11000 with the target price 0 has a target
  price, and its cell is the placeholder \<^verbatim>\<open>"-"\<close>, not a computed value. A trade sold
  at 3679285080581904 with the target price 5218844085931779 has the cell \<^verbatim>\<open>71%\<close>,
  and 71 is not the exact ratio times 100 rounded: that lies below 70.5, and the double
  the code rounds is 70.5.
\<close>

theorem target_achievement_counterexample:
  "scenario (example_trade 11000 10 (with_target 0)) =
     Some \<lparr>sector = None, investment_period = None, target_price = Some 0\<rparr> \<and>
   fst (target_achievement (example_trade 11000 10 (with_target 0))) = ''-'' \<and>
   fst (target_achievement
     (example_trade 3679285080581904 10 (with_target 5218844085931779))) = ''71%'' \<and>
   \<not> \<bar>71 - 3679285080581904 / 5218844085931779 * 100\<bar> \<le> (1 / 2 :: real)"
  by (simp add: target_achievement_def example_trade_def with_target_def
      tie_double toFixed0_def decimal.simps)

text \<open>
  C8, amended. For every trade with a present target price other than 0, the cell is
  \<^verbatim>\<open>toFixed(0)\<close> of the double that sell price divided by target price, times 100,
  gives in double arithmetic, followed by \<^verbatim>\<open>%\<close>. That double is never NaN. When it is
  finite and below \<open>10^21\<close> in absolute value, the cell is the sign and the decimal
  digits of an integer within one half of it; from \<open>10^21\<close> on, the sign and the
  exponential notation of its absolute value; when it is an infinity, \<^verbatim>\<open>Infinity\<close>
  with its sign. For every trade with no scenario, no target price or the target price
  0, the cell is \<^verbatim>\<open>"-"\<close>.
\<close>

theorem target_achievement_text:
  "(scenario trade = Some sc \<and> target_price sc = Some target \<and> target \<noteq> 0 \<longrightarrow>
      fst (target_achievement trade) =
        toFixed0 (js_mul (js_div (sell_price trade) target) 100) @ ''%'' \<and>
      (\<forall>x. js_mul (js_div (sell_price trade) target) 100 = Finite x \<and> \<bar>x\<bar> < 10 ^ 21 \<longrightarrow>
         (\<exists>n. \<bar>real n - \<bar>x\<bar>\<bar> \<le> 1 / 2 \<and>
              fst (target_achievement trade) =
                (if x < 0 then ''-'' else []) @ decimal n @ ''%'')) \<and>
      (\<forall>x. js_mul (js_div (sell_price trade) target) 100 = Finite x \<and> 10 ^ 21 \<le> \<bar>x\<bar> \<longrightarrow>
         fst (target_achievement trade) =
           (if x < 0 then ''-'' else []) @ exponential \<bar>x\<bar> @ ''%'') \<and>
      (js_mul (js_div (sell_price trade) target) 100 = PosInfinity \<longrightarrow>
         fst (target_achievement trade) = ''Infinity%'') \<and>
      (js_mul (js_div (sell_price trade) target) 100 = NegInfinity \<longrightarrow>
         fst (target_achievement trade) = ''-Infinity%'') \<and>
      js_mul (js_div (sell_price trade) target) 100 \<noteq> NaN) \<and>
   (scenario trade = None \<or>
    (\<exists>s. scenario trade = Some s \<and> (target_price s = None \<or> target_price s = Some 0)) \<longrightarrow>
      fst (target_achievement trade) = ''-'')"
proof (intro conjI impI allI)
  assume a: "scenario trade = Some sc \<and> target_price sc = Some target \<and> target \<noteq> 0"
  then show cell: "fst (target_achievement trade) =
      toFixed0 (js_mul (js_div (sell_price trade) target) 100) @ ''%''"
    by (simp add: target_achievement_def)
  show "js_mul (js_div (sell_price trade) target) 100 \<noteq> NaN"
    using a by (simp add: ratio_not_NaN)
  {
    assume "js_mul (js_div (sell_price trade) target) 100 = PosInfinity"
    with cell show "fst (target_achievement trade) = ''Infinity%''"
      by (simp add: toFixed0_infinite)
  }
  {
    assume "js_mul (js_div (sell_price trade) target) 100 = NegInfinity"
    with cell show "fst (target_achievement trade) = ''-Infinity%''"
      by (simp add: toFixed0_infinite)
  }
  {
    fix x
    assume "js_mul (js_div (sell_price trade) target) 100 = Finite x \<and> 10 ^ 21 \<le> \<bar>x\<bar>"
    then have d: "js_mul (js_div (sell_price trade) target) 100 = Finite x"
      and large: "10 ^ 21 \<le> \<bar>x\<bar>" by blast+
    from cell d toFixed0_large [OF large]
    show "fst (target_achievement trade) =
        (if x < 0 then ''-'' else []) @ exponential \<bar>x\<bar> @ ''%''" by simp
  }
  {
    fix x
    assume "js_mul (js_div (sell_price trade) target) 100 = Finite x \<and> \<bar>x\<bar> < 10 ^ 21"
    then have d: "js_mul (js_div (sell_price trade) target) 100 = Finite x"
      and small: "\<bar>x\<bar> < 10 ^ 21" by blast+
    from toFixed0_rounds [OF small] obtain n where n: "\<bar>real n - \<bar>x\<bar>\<bar> \<le> 1 / 2"
      "toFixed0 (Finite x) = (if x < 0 then ''-'' else []) @ decimal n" by blast
    from cell d n(2) have "fst (target_achievement trade) =
        (if x < 0 then ''-'' else []) @ decimal n @ ''%''" by simp
    with n(1) show "\<exists>n. \<bar>real n - \<bar>x\<bar>\<bar> \<le> 1 / 2 \<and>
        fst (target_achievement trade) = (if x < 0 then ''-'' else []) @ decimal n @ ''%''"
      by blast
  }
next
  assume "scenario trade = None \<or>
    (\<exists>s. scenario trade = Some s \<and> (target_price s = None \<or> target_price s = Some 0))"
  then show "fst (target_achievement trade) = ''-''"
    by (auto simp: target_achievement_def)
qed

text \<open>The spec's example: sold at 11000 with the target 10000, the cell is \<^verbatim>\<open>110%\<close>.\<close>

theorem target_achievement_text_witness:
  "scenario (example_trade 11000 10 (with_target 10000)) = with_target 10000 \<and>
   js_mul (js_div (sell_price (example_trade 11000 10 (with_target 10000))) 10000) 100 =
     Finite (7740561859543041 / 70368744177664) \<and>
   fst (target_achievement (example_trade 11000 10 (with_target 10000))) = ''110%'' \<and>
   fst (target_achievement (example_trade 11000 10 (in_sector ''tech''))) = ''-'' \<and>
   fst (target_achievement (example_trade 11000 10 None)) = ''-''"
  using target_achievement_text [of "example_trade 11000 10 (with_target 10000)"
      "\<lparr>sector = None, investment_period = None, target_price = Some 10000\<rparr>" 10000]
    target_achievement_text [of "example_trade 11000 10 None"]
  by (simp add: target_achievement_def example_trade_def with_target_def in_sector_def
      example_double toFixed0_def decimal.simps)

subsection \<open>C9: the accessor outside a provider\<close>

text \<open>
  C9. With no enclosing provider, \<open>useLanguage\<close> throws its error and returns no
  context; the page, which calls it first, throws the same error.
\<close>

theorem useLanguage_outside_provider:
  "useLanguage [] = Inl (Error ''useLanguage must be used within a LanguageProvider'') \<and>
   TradingHistoryPage [] history summary =
     Inl (Error ''useLanguage must be used within a LanguageProvider'')"
  by (simp add: useLanguage_def useContext_def TradingHistoryPage_def)

subsection \<open>C10: a target price of zero\<close>

text \<open>
  C10. For every trade whose target price is 0, the cell is the placeholder
  \<^verbatim>\<open>"-"\<close> and no division is evaluated; for every trade whatever, no division is
  evaluated with the divisor 0.
\<close>

theorem zero_target_is_absent:
  "(scenario trade = Some sc \<and> target_price sc = Some 0 \<longrightarrow>
      target_achievement trade = (''-'', [])) \<and>
   0 \<notin> set (snd (target_achievement trade))"
  by (auto simp: target_achievement_def split: option.splits)

theorem zero_target_is_absent_witness:
  "scenario (example_trade 11000 10 (with_target 0)) = with_target 0 \<and>
   target_achievement (example_trade 11000 10 (with_target 0)) = (''-'', []) \<and>
   snd (target_achievement (example_trade 11000 10 (with_target 10000))) = [10000]"
  using zero_target_is_absent [of "example_trade 11000 10 (with_target 0)"
    "\<lparr>sector = None, investment_period = None, target_price = Some 0\<rparr>"]
  by (simp add: target_achievement_def example_trade_def with_target_def)


end
